theory Spec2Isabelle
  imports Complex_Main
begin

section \<open>Values of the program\<close>

text \<open>
  The module \<^verbatim>\<open>app.py\<close> handles values produced by \<^verbatim>\<open>r.json()\<close>: Python's
  \<^verbatim>\<open>None\<close>, \<^verbatim>\<open>bool\<close>, \<^verbatim>\<open>int\<close> (unbounded), \<^verbatim>\<open>float\<close>, \<^verbatim>\<open>str\<close>, \<^verbatim>\<open>list\<close> and \<^verbatim>\<open>dict\<close>
  with string keys.

  \<^item> A Python \<^verbatim>\<open>str\<close> is modelled by its UTF-8 encoding, a list of bytes (\<open>string\<close>).
    The source file is UTF-8, so a literal of the source is the list of its bytes.
  \<^item> A \<^verbatim>\<open>dict\<close> is an association list in insertion order, read with \<open>map_of\<close>.
  \<^item> A \<^verbatim>\<open>float\<close> is a value of the type parameter \<open>'f\<close>; what Python's built-ins do
    with a float (and \<^verbatim>\<open>repr\<close> of containers, which quotes strings) is defined
    outside the repository and is taken as a parameter, the record \<open>py_builtins\<close>.
\<close>

datatype 'f json =
    JNull
  | JBool bool
  | JInt int
  | JFloat 'f
  | JStr string
  | JArr "'f json list"
  | JObj "(string \<times> 'f json) list"

record 'f py_builtins =
  float_truthy :: "'f \<Rightarrow> bool"          \<comment> \<open>\<^verbatim>\<open>bool(x)\<close> of a float\<close>
  float_minutes :: "'f \<Rightarrow> string"       \<comment> \<open>\<^verbatim>\<open>str(max(x, 0) // 60)\<close> of a float\<close>
  py_repr :: "'f json \<Rightarrow> string"        \<comment> \<open>\<^verbatim>\<open>str(v)\<close> of a float, a list or a dict\<close>
  urlencode :: "(string \<times> string) list \<Rightarrow> string"
                                          \<comment> \<open>\<^verbatim>\<open>urlencode(params, doseq=True)\<close>\<close>

datatype py_error =
    TypeError
  | AttributeError
  | JSONDecodeError
  | TransportError
  | HTTPException int string

subsection \<open>Built-ins used by the module\<close>

text \<open>Truth value of an object, as \<^verbatim>\<open>if x\<close>, \<^verbatim>\<open>x or y\<close> and \<^verbatim>\<open>not x\<close> test it.\<close>

fun truthy :: "'f py_builtins \<Rightarrow> 'f json \<Rightarrow> bool" where
  "truthy B JNull = False"
| "truthy B (JBool b) = b"
| "truthy B (JInt i) = (i \<noteq> 0)"
| "truthy B (JFloat x) = float_truthy B x"
| "truthy B (JStr s) = (s \<noteq> [])"
| "truthy B (JArr xs) = (xs \<noteq> [])"
| "truthy B (JObj d) = (d \<noteq> [])"

text \<open>\<^verbatim>\<open>x or y\<close>\<close>

definition py_or :: "'f py_builtins \<Rightarrow> 'f json \<Rightarrow> 'f json \<Rightarrow> 'f json" where
  "py_or B x y = (if truthy B x then x else y)"

text \<open>\<^verbatim>\<open>m.get(k, default)\<close>; \<^verbatim>\<open>m.get(k)\<close> is \<^verbatim>\<open>m.get(k, None)\<close>.\<close>

definition dict_get :: "(string \<times> 'f json) list \<Rightarrow> string \<Rightarrow> 'f json \<Rightarrow> 'f json" where
  "dict_get m k dflt = (case map_of m k of None \<Rightarrow> dflt | Some v \<Rightarrow> v)"

text \<open>Decimal text of an \<^verbatim>\<open>int\<close>, as \<^verbatim>\<open>str\<close> and an f-string render it.\<close>

fun digits :: "nat \<Rightarrow> string" where
  "digits n =
     (if n < 10 then [''0123456789'' ! n]
      else digits (n div 10) @ [''0123456789'' ! (n mod 10)])"

declare digits.simps [simp del]

definition str_int :: "int \<Rightarrow> string" where
  "str_int i = (if i < 0 then CHR ''-'' # digits (nat (- i)) else digits (nat i))"

text \<open>\<^verbatim>\<open>f"{v}"\<close>, that is \<^verbatim>\<open>str(v)\<close>.\<close>

fun py_str :: "'f py_builtins \<Rightarrow> 'f json \<Rightarrow> string" where
  "py_str B JNull = ''None''"
| "py_str B (JBool b) = (if b then ''True'' else ''False'')"
| "py_str B (JInt i) = str_int i"
| "py_str B (JStr s) = s"
| "py_str B v = py_repr B v"

text \<open>
  \<^verbatim>\<open>len(v)\<close>: the elements of a list, the keys of a dict, the code points of a string
  (the bytes of its UTF-8 encoding that are not continuation bytes); every other JSON
  value has no length and \<^verbatim>\<open>len\<close> raises \<^verbatim>\<open>TypeError\<close>.
\<close>

definition continuation_byte :: "char \<Rightarrow> bool" where
  "continuation_byte c = (128 \<le> (of_char c :: nat) \<and> (of_char c :: nat) < 192)"

fun py_len :: "'f json \<Rightarrow> py_error + nat" where
  "py_len (JArr xs) = Inr (length xs)"
| "py_len (JObj d) = Inr (length (remdups (map fst d)))"
| "py_len (JStr s) = Inr (length (filter (\<lambda>c. \<not> continuation_byte c) s))"
| "py_len v = Inl TypeError"

section \<open>The in-memory cache\<close>

text \<open>
  \<^verbatim>\<open>_cache\<close> is a module-level dict from the key to \<^verbatim>\<open>{"data": ..., "exp": ...}\<close>. The
  functions below take the cache and the reading of \<^verbatim>\<open>time.time()\<close> and return the
  result (and the new cache). The clock is a real number of seconds.

  \<^verbatim>\<open>time.time() + ttl\<close> is a sum of binary64 floats and is rounded to the nearest
  float; \<open>cache_set\<close> adds exactly. Rounding is monotone and leaves a float where it is,
  so a later clock reading \<open>t\<close> that is not above the exact sum is not above the rounded
  sum either: a read within the ttl finds the entry in the code as in the model. The
  rounded sum can lie above the exact one, so nothing is derived from \<open>cache_set\<close> about
  a read after the ttl; expiry is stated on the stored \<open>exp_at\<close> of an entry.
\<close>

record 'v cache_entry =
  data :: 'v
  exp_at :: real

type_synonym 'v cache = "string \<rightharpoonup> 'v cache_entry"

definition CACHE_SECONDS :: int where
  "CACHE_SECONDS = 10"

definition cache_get :: "'v cache \<Rightarrow> string \<Rightarrow> real \<Rightarrow> 'v option" where
  "cache_get c k now =
     (case c k of
        None \<Rightarrow> None
      | Some v \<Rightarrow> if exp_at v < now then None else Some (data v))"

definition cache_set :: "'v cache \<Rightarrow> string \<Rightarrow> 'v \<Rightarrow> int \<Rightarrow> real \<Rightarrow> 'v cache" where
  "cache_set c k d ttl now = c(k \<mapsto> \<lparr>data = d, exp_at = now + of_int ttl\<rparr>)"

section \<open>Normalisation\<close>

text \<open>
  One element of the lists the normalisers return: the dict literal of the loop body.
  The key \<^verbatim>\<open>"id"\<close> is the field \<open>item_id\<close>. The values of \<^verbatim>\<open>league\<close>, \<^verbatim>\<open>team1\<close> and
  \<^verbatim>\<open>team2\<close> come from \<^verbatim>\<open>m.get(...) or "..."\<close> and are whatever JSON value the record
  holds when that value is truthy.
\<close>

record 'f item =
  item_id :: "'f json"
  game :: string
  league :: "'f json"
  series :: string
  team1 :: "'f json"
  team2 :: "'f json"
  status :: string
  score :: string
  begin_at :: "'f json"
  raw :: "(string \<times> 'f json) list"

text \<open>
  The f-string of line 46. In the source file the seven bytes between \<^verbatim>\<open>Live\<close> and the
  brace are C3 A2 E2 82 AC C2 A2, the UTF-8 encoding of the three code points U+00E2,
  U+20AC, U+00A2.
\<close>

definition live_fstring :: "string \<Rightarrow> string" where
  "live_fstring minutes =
     ''Live '' @ [CHR 0xC3, CHR 0xA2, CHR 0xE2, CHR 0x82, CHR 0xAC, CHR 0xC2, CHR 0xA2]
       @ '' '' @ minutes @ ''m''"

text \<open>
  \<^verbatim>\<open>f"Live ... {max(game_time,0)//60}m" if game_time else "Live"\<close>. \<^verbatim>\<open>max\<close> compares
  its arguments: a truthy string, list or dict against \<^verbatim>\<open>0\<close> raises \<^verbatim>\<open>TypeError\<close>;
  \<^verbatim>\<open>True\<close> is the integer 1.
\<close>

definition live_status :: "'f py_builtins \<Rightarrow> 'f json \<Rightarrow> py_error + string" where
  "live_status B game_time =
     (if truthy B game_time then
        (case game_time of
           JInt i \<Rightarrow> Inr (live_fstring (str_int (max i 0 div 60)))
         | JBool b \<Rightarrow> Inr (live_fstring (str_int (max (if b then 1 else 0) 0 div 60)))
         | JFloat x \<Rightarrow> Inr (live_fstring (float_minutes B x))
         | _ \<Rightarrow> Inl TypeError)
      else Inr ''Live'')"

text \<open>\<^verbatim>\<open>f"{m.get('radiant_score', 0)} - {m.get('dire_score', 0)}"\<close>, the same in both loops.\<close>

definition score_fstring :: "'f py_builtins \<Rightarrow> (string \<times> 'f json) list \<Rightarrow> string" where
  "score_fstring B m =
     py_str B (dict_get m ''radiant_score'' (JInt 0)) @ '' - ''
       @ py_str B (dict_get m ''dire_score'' (JInt 0))"

text \<open>The body of the loop of \<^verbatim>\<open>normalize_live\<close> for a dict \<open>m\<close>.\<close>

definition live_item ::
  "'f py_builtins \<Rightarrow> (string \<times> 'f json) list \<Rightarrow> py_error + 'f item" where
  "live_item B m =
     (let league = py_or B (dict_get m ''league_name'' JNull) (JStr []);
          team1 = py_or B (dict_get m ''team_name_radiant'' JNull) (JStr ''Radiant'');
          team2 = py_or B (dict_get m ''team_name_dire'' JNull) (JStr ''Dire'');
          score = score_fstring B m;
          game_time = dict_get m ''game_time'' (JInt 0)
      in case live_status B game_time of
           Inl e \<Rightarrow> Inl e
         | Inr st \<Rightarrow>
             Inr \<lparr>item_id = dict_get m ''match_id'' JNull, game = ''Dota 2'',
                  league = league, series = [], team1 = team1, team2 = team2,
                  status = st, score = score, begin_at = JNull, raw = m\<rparr>)"

text \<open>
  The loop \<^verbatim>\<open>for m in rows\<close>, appending to the list built so far. An element that is
  not a dict has no \<^verbatim>\<open>get\<close>: \<^verbatim>\<open>AttributeError\<close>. An exception leaves the loop.
\<close>

fun live_loop ::
  "'f py_builtins \<Rightarrow> 'f item list \<Rightarrow> 'f json list \<Rightarrow> py_error + 'f item list" where
  "live_loop B acc [] = Inr acc"
| "live_loop B acc (JObj m # rows) =
     (case live_item B m of
        Inl e \<Rightarrow> Inl e
      | Inr it \<Rightarrow> live_loop B (acc @ [it]) rows)"
| "live_loop B acc (v # rows) = Inl AttributeError"

definition normalize_live :: "'f py_builtins \<Rightarrow> 'f json \<Rightarrow> py_error + 'f item list" where
  "normalize_live B rows = (case rows of JArr ms \<Rightarrow> live_loop B [] ms | _ \<Rightarrow> Inr [])"

text \<open>The body of the loop of \<^verbatim>\<open>normalize_pro\<close> for a dict \<open>m\<close>.\<close>

definition pro_item :: "'f py_builtins \<Rightarrow> (string \<times> 'f json) list \<Rightarrow> 'f item" where
  "pro_item B m =
     (let team1 = py_or B (dict_get m ''radiant_name'' JNull) (JStr ''Radiant'');
          team2 = py_or B (dict_get m ''dire_name'' JNull) (JStr ''Dire'');
          score = score_fstring B m
      in \<lparr>item_id = dict_get m ''match_id'' JNull, game = ''Dota 2'',
           league = py_or B (dict_get m ''league_name'' JNull) (JStr []),
           series = [], team1 = team1, team2 = team2,
           status = ''Finished'', score = score, begin_at = JNull, raw = m\<rparr>)"

text \<open>The loop \<^verbatim>\<open>for m in rows[:20]\<close>; the slice is taken in \<open>normalize_pro\<close>.\<close>

fun pro_loop ::
  "'f py_builtins \<Rightarrow> 'f item list \<Rightarrow> 'f json list \<Rightarrow> py_error + 'f item list" where
  "pro_loop B acc [] = Inr acc"
| "pro_loop B acc (JObj m # rows) = pro_loop B (acc @ [pro_item B m]) rows"
| "pro_loop B acc (v # rows) = Inl AttributeError"

definition normalize_pro :: "'f py_builtins \<Rightarrow> 'f json \<Rightarrow> py_error + 'f item list" where
  "normalize_pro B rows =
     (case rows of JArr ms \<Rightarrow> pro_loop B [] (take 20 ms) | _ \<Rightarrow> Inr [])"

section \<open>The two handlers\<close>

text \<open>
  \<^verbatim>\<open>client.get(url)\<close> is the function \<open>fetch\<close>: it raises (a transport error) or returns
  a response with a status code and a body; \<open>json_body\<close> is \<open>None\<close> when the body is not
  JSON and \<^verbatim>\<open>r.json()\<close> raises. The handler reads the clock twice, in \<^verbatim>\<open>cache_get\<close>
  (\<open>t_get\<close>) and in \<^verbatim>\<open>cache_set\<close> (\<open>t_set\<close>). \<open>params\<close> is the dict
  \<^verbatim>\<open>dict(request.query_params)\<close>. The result is the exception raised or the dict given
  to \<^verbatim>\<open>JSONResponse\<close>, with the cache after the call. A cached payload is a dict of
  two keys, so \<^verbatim>\<open>if cached\<close> holds exactly when \<^verbatim>\<open>cache_get\<close> found an entry.
\<close>

record 'f http_response =
  status_code :: int
  json_body :: "'f json option"

record 'f payload =
  count :: nat
  items :: "'f item list"

record 'f reply = "'f payload" +
  fromCache :: bool

definition OPENDOTA_LIVE :: string where
  "OPENDOTA_LIVE = ''https://api.opendota.com/api/live''"

definition OPENDOTA_PRO :: string where
  "OPENDOTA_PRO = ''https://api.opendota.com/api/proMatches''"

definition live_url :: "'f py_builtins \<Rightarrow> (string \<times> string) list \<Rightarrow> string" where
  "live_url B params =
     (let qs = urlencode B params
      in OPENDOTA_LIVE @ (if qs \<noteq> [] then ''?'' @ qs else []))"

definition upstream_error :: "int \<Rightarrow> py_error" where
  "upstream_error code = HTTPException 502 (''OpenDota upstream error '' @ str_int code)"

definition dota_live ::
  "'f py_builtins \<Rightarrow> (string \<Rightarrow> py_error + 'f http_response) \<Rightarrow> real \<Rightarrow> real \<Rightarrow>
   (string \<times> string) list \<Rightarrow> 'f payload cache \<Rightarrow> (py_error + 'f reply) \<times> 'f payload cache" where
  "dota_live B fetch t_get t_set params c =
     (let url = live_url B params in
      case cache_get c url t_get of
        Some cached \<Rightarrow>
          (Inr \<lparr>count = count cached, items = items cached, fromCache = True\<rparr>, c)
      | None \<Rightarrow>
          (case fetch url of
             Inl e \<Rightarrow> (Inl e, c)
           | Inr r \<Rightarrow>
               if status_code r \<noteq> 200 then (Inl (upstream_error (status_code r)), c)
               else
                 (case json_body r of
                    None \<Rightarrow> (Inl JSONDecodeError, c)
                  | Some rows \<Rightarrow>
                      (case py_len rows of
                         Inl e \<Rightarrow> (Inl e, c)
                       | Inr n \<Rightarrow>
                           (case normalize_live B rows of
                              Inl e \<Rightarrow> (Inl e, c)
                            | Inr its \<Rightarrow>
                                (Inr \<lparr>count = n, items = its, fromCache = False\<rparr>,
                                 cache_set c url \<lparr>count = n, items = its\<rparr>
                                   CACHE_SECONDS t_set))))))"

definition dota_recent ::
  "'f py_builtins \<Rightarrow> (string \<Rightarrow> py_error + 'f http_response) \<Rightarrow> real \<Rightarrow> real \<Rightarrow>
   'f payload cache \<Rightarrow> (py_error + 'f reply) \<times> 'f payload cache" where
  "dota_recent B fetch t_get t_set c =
     (case cache_get c OPENDOTA_PRO t_get of
        Some cached \<Rightarrow>
          (Inr \<lparr>count = count cached, items = items cached, fromCache = True\<rparr>, c)
      | None \<Rightarrow>
          (case fetch OPENDOTA_PRO of
             Inl e \<Rightarrow> (Inl e, c)
           | Inr r \<Rightarrow>
               if status_code r \<noteq> 200 then (Inl (upstream_error (status_code r)), c)
               else
                 (case json_body r of
                    None \<Rightarrow> (Inl JSONDecodeError, c)
                  | Some rows \<Rightarrow>
                      (case py_len rows of
                         Inl e \<Rightarrow> (Inl e, c)
                       | Inr n \<Rightarrow>
                           (case normalize_pro B rows of
                              Inl e \<Rightarrow> (Inl e, c)
                            | Inr its \<Rightarrow>
                                (Inr \<lparr>count = n, items = its, fromCache = False\<rparr>,
                                 cache_set c OPENDOTA_PRO \<lparr>count = n, items = its\<rparr>
                                   30 t_set))))))"

section \<open>An instance of the built-ins\<close>

text \<open>
  \<^verbatim>\<open>urlencode(params, doseq=True)\<close> on a dict of strings joins \<^verbatim>\<open>quote_plus(k) + "=" +
  quote_plus(v)\<close> with \<^verbatim>\<open>&\<close>; \<^verbatim>\<open>quote_plus\<close> keeps the unreserved bytes, turns a space
  into \<^verbatim>\<open>+\<close> and writes every other byte of the UTF-8 encoding as \<^verbatim>\<open>%XX\<close>.
  \<open>std_builtins\<close> is used to evaluate the handlers on concrete inputs; these inputs
  hold no float and format no container, so its first three fields are never consulted.
\<close>

definition always_safe :: "char \<Rightarrow> bool" where
  "always_safe c =
     (c \<in> set ''ABCDEFGHIJKLMNOPQRSTUVWXYZabcdefghijklmnopqrstuvwxyz0123456789_.-~'')"

definition hex_digit :: "nat \<Rightarrow> char" where
  "hex_digit n = ''0123456789ABCDEF'' ! n"

definition quote_plus :: "string \<Rightarrow> string" where
  "quote_plus s =
     concat (map (\<lambda>c. if always_safe c then [c]
                        else if c = CHR '' '' then ''+''
                        else [CHR ''%'', hex_digit (of_char c div 16), hex_digit (of_char c mod 16)]) s)"

fun join_amp :: "string list \<Rightarrow> string" where
  "join_amp [] = []"
| "join_amp [x] = x"
| "join_amp (x # y # ys) = x @ ''&'' @ join_amp (y # ys)"

definition urlencode_doseq :: "(string \<times> string) list \<Rightarrow> string" where
  "urlencode_doseq params = join_amp (map (\<lambda>(k, v). quote_plus k @ ''='' @ quote_plus v) params)"

definition std_builtins :: "unit py_builtins" where
  "std_builtins =
     \<lparr>float_truthy = (\<lambda>x. True), float_minutes = (\<lambda>x. []), py_repr = (\<lambda>v. []),
      urlencode = urlencode_doseq\<rparr>"

section \<open>Auxiliary facts: the loops as maps, the fields of an item\<close>

lemmas run_defs =
  dota_live_def dota_recent_def live_url_def upstream_error_def cache_get_def cache_set_def
  CACHE_SECONDS_def normalize_live_def normalize_pro_def live_item_def pro_item_def
  live_status_def live_fstring_def score_fstring_def py_or_def dict_get_def str_int_def
  digits.simps std_builtins_def urlencode_doseq_def OPENDOTA_LIVE_def OPENDOTA_PRO_def

lemmas enc_defs = quote_plus_def always_safe_def hex_digit_def

lemma pro_loop_map: "pro_loop B acc (map JObj ms) = Inr (acc @ map (pro_item B) ms)"
  by (induction ms arbitrary: acc) simp_all

lemma pro_loop_rows:
  "pro_loop B acc rows = Inr its \<Longrightarrow>
   \<exists>ms. rows = map JObj ms \<and> its = acc @ map (pro_item B) ms"
proof (induction B acc rows rule: pro_loop.induct)
  case (1 B acc)
  then show ?case by simp
next
  case (2 B acc m rows)
  then obtain ms where "rows = map JObj ms" "its = (acc @ [pro_item B m]) @ map (pro_item B) ms"
    by auto
  then have "JObj m # rows = map JObj (m # ms) \<and> its = acc @ map (pro_item B) (m # ms)"
    by simp
  then show ?case by (intro exI[of _ "m # ms"])
qed simp_all

lemma live_loop_rows:
  "live_loop B acc rows = Inr its \<Longrightarrow>
   \<exists>new. its = acc @ new \<and>
     list_all2 (\<lambda>r it. \<exists>m. r = JObj m \<and> live_item B m = Inr it) rows new"
proof (induction B acc rows rule: live_loop.induct)
  case (1 B acc)
  then show ?case by simp
next
  case (2 B acc m rows)
  from "2.prems" obtain it where it: "live_item B m = Inr it"
    and rest: "live_loop B (acc @ [it]) rows = Inr its"
    by (auto split: sum.splits)
  from "2.IH"[OF it rest] obtain new where
    "its = (acc @ [it]) @ new"
    "list_all2 (\<lambda>r it. \<exists>m. r = JObj m \<and> live_item B m = Inr it) rows new"
    by blast
  with it have "its = acc @ (it # new) \<and>
     list_all2 (\<lambda>r it. \<exists>m. r = JObj m \<and> live_item B m = Inr it) (JObj m # rows) (it # new)"
    by simp
  then show ?case by blast
qed simp_all

lemma normalize_live_nth:
  assumes "normalize_live B (JArr rows) = Inr its"
  shows "length its = length rows"
    and "i < length rows \<Longrightarrow> rows ! i = JObj m \<Longrightarrow> live_item B m = Inr (its ! i)"
proof -
  from assms have "live_loop B [] rows = Inr its" by (simp add: normalize_live_def)
  from live_loop_rows[OF this]
  have l: "list_all2 (\<lambda>r it. \<exists>m. r = JObj m \<and> live_item B m = Inr it) rows its" by simp
  then show "length its = length rows" by (simp add: list_all2_lengthD)
  assume "i < length rows" "rows ! i = JObj m"
  with l show "live_item B m = Inr (its ! i)"
    by (auto dest: list_all2_nthD)
qed

lemma normalize_pro_nth:
  assumes "normalize_pro B (JArr rows) = Inr its"
  shows "length its = min 20 (length rows)"
    and "i < length rows \<Longrightarrow> i < 20 \<Longrightarrow> rows ! i = JObj m \<Longrightarrow> its ! i = pro_item B m"
proof -
  from assms have "pro_loop B [] (take 20 rows) = Inr its" by (simp add: normalize_pro_def)
  from pro_loop_rows[OF this] obtain ms where
    ms: "take 20 rows = map JObj ms" "its = map (pro_item B) ms" by auto
  from ms have len: "length ms = min 20 (length rows)"
    by (metis length_map length_take min.commute)
  with ms show "length its = min 20 (length rows)" by simp
  assume i: "i < length rows" "i < 20" "rows ! i = JObj m"
  then have "take 20 rows ! i = JObj m" by simp
  with ms i len have "JObj (ms ! i) = JObj m" by (metis min_less_iff_conj nth_map)
  then have "ms ! i = m" by simp
  with ms i len show "its ! i = pro_item B m" by simp
qed


lemma live_item_fields:
  assumes "live_item B m = Inr it"
  shows "score it = score_fstring B m"
    and "team1 it = py_or B (dict_get m ''team_name_radiant'' JNull) (JStr ''Radiant'')"
    and "team2 it = py_or B (dict_get m ''team_name_dire'' JNull) (JStr ''Dire'')"
    and "league it = py_or B (dict_get m ''league_name'' JNull) (JStr [])"
  using assms by (auto simp add: live_item_def Let_def split: sum.splits)

lemma pro_item_fields:
  "score (pro_item B m) = score_fstring B m"
  "team1 (pro_item B m) = py_or B (dict_get m ''radiant_name'' JNull) (JStr ''Radiant'')"
  "team2 (pro_item B m) = py_or B (dict_get m ''dire_name'' JNull) (JStr ''Dire'')"
  "league (pro_item B m) = py_or B (dict_get m ''league_name'' JNull) (JStr [])"
  by (simp_all add: pro_item_def Let_def)

lemma recent_25_run:
  "dota_recent std_builtins
     (\<lambda>u. Inr \<lparr>status_code = 200, json_body = Some (JArr (replicate 25 (JObj [])))\<rparr>)
     0 0 Map.empty =
     (Inr \<lparr>count = 25,
           items = replicate 20
             \<lparr>item_id = JNull, game = ''Dota 2'', league = JStr [], series = [],
              team1 = JStr ''Radiant'', team2 = JStr ''Dire'', status = ''Finished'',
              score = ''0 - 0'', begin_at = JNull, raw = []\<rparr>,
           fromCache = False\<rparr>,
      [OPENDOTA_PRO \<mapsto>
         \<lparr>data = \<lparr>count = 25,
                   items = replicate 20
                     \<lparr>item_id = JNull, game = ''Dota 2'', league = JStr [], series = [],
                      team1 = JStr ''Radiant'', team2 = JStr ''Dire'', status = ''Finished'',
                      score = ''0 - 0'', begin_at = JNull, raw = []\<rparr>\<rparr>,
          exp_at = 30\<rparr>])"
proof -
  have "pro_loop std_builtins [] (map JObj (replicate 20 [])) =
      Inr ([] @ map (pro_item std_builtins) (replicate 20 []))"
    by (rule pro_loop_map)
  then have "normalize_pro std_builtins (JArr (replicate 25 (JObj []))) =
      Inr (replicate 20 (pro_item std_builtins []))"
    by (simp add: normalize_pro_def)
  then show ?thesis
    by (simp add: dota_recent_def cache_get_def cache_set_def pro_item_def score_fstring_def
        py_or_def dict_get_def str_int_def digits.simps)
qed

section \<open>The cache\<close>

text \<open>
  C8. Writing with \<^verbatim>\<open>cache_set\<close> replaces the whole entry under the key, whatever
  was stored there before, and a read before the ttl has elapsed returns exactly the
  value written.
\<close>

theorem cache_roundtrip:
  assumes "t - t0 < of_int T"
  shows "cache_set c k v T t0 k = Some \<lparr>data = v, exp_at = t0 + of_int T\<rparr> \<and>
         cache_get (cache_set c k v T t0) k t = Some v"
  using assms by (simp add: cache_get_def cache_set_def)

theorem cache_roundtrip_witness:
  "(3::real) - 0 < of_int 10 \<and>
   cache_set [''k'' \<mapsto> \<lparr>data = ''old'', exp_at = 99\<rparr>] ''k'' ''new'' 10 0 ''k''
     = Some \<lparr>data = ''new'', exp_at = 10\<rparr> \<and>
   cache_get (cache_set [''k'' \<mapsto> \<lparr>data = ''old'', exp_at = 99\<rparr>] ''k'' ''new'' 10 0) ''k'' 3
     = Some ''new''"
proof -
  have h: "(3::real) - 0 < of_int 10" by simp
  from cache_roundtrip[OF h, of "[''k'' \<mapsto> \<lparr>data = ''old'', exp_at = 99\<rparr>]" "''k''" "''new''"] h
  show ?thesis by simp
qed




section \<open>The normalisers\<close>

text \<open>
  C6. Given a list of 25 records (dicts), \<^verbatim>\<open>normalize_pro\<close> returns 20 items: the
  items of the first 20 records, in the order of the input, each with the status
  \<^verbatim>\<open>"Finished"\<close>.
\<close>

theorem normalize_pro_caps_at_20:
  assumes "length ms = 25"
  shows "normalize_pro B (JArr (map JObj ms)) = Inr (map (pro_item B) (take 20 ms)) \<and>
         length (map (pro_item B) (take 20 ms)) = 20 \<and>
         (\<forall>it \<in> set (map (pro_item B) (take 20 ms)). status it = ''Finished'')"
proof -
  have "normalize_pro B (JArr (map JObj ms)) = Inr (map (pro_item B) (take 20 ms))"
    by (simp add: normalize_pro_def take_map pro_loop_map)
  moreover have "length (map (pro_item B) (take 20 ms)) = 20"
    using assms by simp
  moreover have "\<forall>it \<in> set (map (pro_item B) (take 20 ms)). status it = ''Finished''"
    by (simp add: pro_item_def)
  ultimately show ?thesis by blast
qed

theorem normalize_pro_caps_at_20_witness:
  "length (map (\<lambda>n. [(''match_id'', JInt (int n))]) [0..<25]) = 25 \<and>
   normalize_pro std_builtins (JArr (map JObj (map (\<lambda>n. [(''match_id'', JInt (int n))]) [0..<25]))) =
     Inr (map (\<lambda>n. \<lparr>item_id = JInt (int n), game = ''Dota 2'', league = JStr [], series = [],
                      team1 = JStr ''Radiant'', team2 = JStr ''Dire'', status = ''Finished'',
                      score = ''0 - 0'', begin_at = JNull, raw = [(''match_id'', JInt (int n))]\<rparr>)
            [0..<20])"
proof -
  have h: "length (map (\<lambda>n. [(''match_id'', JInt (int n)) :: string \<times> unit json]) [0..<25]) = 25"
    by simp
  have t: "take 20 [0..<25::nat] = [0..<20]" by (simp add: take_upt)
  from normalize_pro_caps_at_20[OF h, of std_builtins] h
  show ?thesis
    by (simp add: take_map t pro_item_def score_fstring_def py_or_def dict_get_def str_int_def
        digits.simps)
qed

text \<open>
  C2 fails on the code. For the list holding the one record
  \<^verbatim>\<open>{"match_id":1,"radiant_score":3,"dire_score":5,"game_time":125}\<close>, \<^verbatim>\<open>normalize_live\<close>
  returns one item with score \<^verbatim>\<open>"3 - 5"\<close>, team1 \<^verbatim>\<open>"Radiant"\<close> and team2 \<^verbatim>\<open>"Dire"\<close>. Its
  status is \<^verbatim>\<open>Live\<close>, a space, the seven bytes of the literal of line 46 (the code points
  U+00E2, U+20AC, U+00A2), a space and \<^verbatim>\<open>2m\<close>; it is not the string with the bullet
  U+2022 (bytes E2 80 A2) in that place.
\<close>

theorem example_status_is_not_the_bullet:
  "normalize_live B (JArr [JObj [(''match_id'', JInt 1), (''radiant_score'', JInt 3),
                                 (''dire_score'', JInt 5), (''game_time'', JInt 125)]]) =
     Inr [\<lparr>item_id = JInt 1, game = ''Dota 2'', league = JStr [], series = [],
           team1 = JStr ''Radiant'', team2 = JStr ''Dire'',
           status = ''Live '' @ [CHR 0xC3, CHR 0xA2, CHR 0xE2, CHR 0x82, CHR 0xAC, CHR 0xC2, CHR 0xA2]
                      @ '' 2m'',
           score = ''3 - 5'', begin_at = JNull,
           raw = [(''match_id'', JInt 1), (''radiant_score'', JInt 3),
                  (''dire_score'', JInt 5), (''game_time'', JInt 125)]\<rparr>] \<and>
   ''Live '' @ [CHR 0xC3, CHR 0xA2, CHR 0xE2, CHR 0x82, CHR 0xAC, CHR 0xC2, CHR 0xA2] @ '' 2m''
     \<noteq> ''Live '' @ [CHR 0xE2, CHR 0x80, CHR 0xA2] @ '' 2m''"
  by (simp add: run_defs)



text \<open>
  C10. In both normalisers the fallbacks come from \<^verbatim>\<open>m.get(...) or "..."\<close>: whenever the
  team-name value is falsy (the key is missing, or the value is null, the empty string,
  zero, false, an empty list or dict), team1 is \<^verbatim>\<open>"Radiant"\<close> and team2 is \<^verbatim>\<open>"Dire"\<close>, and
  a falsy league name gives the empty string.
\<close>

theorem falsy_names_fall_back:
  assumes "i < length rows" and "rows ! i = JObj m"
  shows "(normalize_live B (JArr rows) = Inr its \<longrightarrow>
            (\<not> truthy B (dict_get m ''team_name_radiant'' JNull) \<longrightarrow>
               team1 (its ! i) = JStr ''Radiant'') \<and>
            (\<not> truthy B (dict_get m ''team_name_dire'' JNull) \<longrightarrow>
               team2 (its ! i) = JStr ''Dire'') \<and>
            (\<not> truthy B (dict_get m ''league_name'' JNull) \<longrightarrow>
               league (its ! i) = JStr [])) \<and>
         (i < 20 \<and> normalize_pro B (JArr rows) = Inr its \<longrightarrow>
            (\<not> truthy B (dict_get m ''radiant_name'' JNull) \<longrightarrow>
               team1 (its ! i) = JStr ''Radiant'') \<and>
            (\<not> truthy B (dict_get m ''dire_name'' JNull) \<longrightarrow>
               team2 (its ! i) = JStr ''Dire'') \<and>
            (\<not> truthy B (dict_get m ''league_name'' JNull) \<longrightarrow>
               league (its ! i) = JStr []))"
proof -
  have live: "live_item B m = Inr (its ! i)" if "normalize_live B (JArr rows) = Inr its"
    using normalize_live_nth(2)[OF that assms] .
  have pro: "its ! i = pro_item B m"
    if "i < 20" "normalize_pro B (JArr rows) = Inr its"
    using normalize_pro_nth(2)[OF that(2) assms(1) that(1) assms(2)] .
  show ?thesis
    using live_item_fields(2-4)[OF live] pro
    by (auto simp add: pro_item_fields py_or_def)
qed

theorem falsy_names_fall_back_witness:
  "normalize_live std_builtins
     (JArr [JObj [(''team_name_radiant'', JStr []), (''team_name_dire'', JNull),
                  (''league_name'', JInt 0)]]) =
     Inr [\<lparr>item_id = JNull, game = ''Dota 2'', league = JStr [], series = [],
           team1 = JStr ''Radiant'', team2 = JStr ''Dire'', status = ''Live'',
           score = ''0 - 0'', begin_at = JNull,
           raw = [(''team_name_radiant'', JStr []), (''team_name_dire'', JNull),
                  (''league_name'', JInt 0)]\<rparr>] \<and>
   normalize_pro std_builtins
     (JArr [JObj [(''radiant_name'', JNull), (''dire_name'', JStr []),
                  (''league_name'', JStr [])]]) =
     Inr [\<lparr>item_id = JNull, game = ''Dota 2'', league = JStr [], series = [],
           team1 = JStr ''Radiant'', team2 = JStr ''Dire'', status = ''Finished'',
           score = ''0 - 0'', begin_at = JNull,
           raw = [(''radiant_name'', JNull), (''dire_name'', JStr []),
                  (''league_name'', JStr [])]\<rparr>]"
  (is "normalize_live _ (JArr [JObj ?m]) = Inr ?L \<and> normalize_pro _ (JArr [JObj ?n]) = Inr ?P")
proof -
  have l: "normalize_live std_builtins (JArr [JObj ?m]) = Inr ?L"
    and p: "normalize_pro std_builtins (JArr [JObj ?n]) = Inr ?P"
    by (simp_all add: run_defs)
  have "team1 (?L ! 0) = JStr ''Radiant'' \<and> team2 (?L ! 0) = JStr ''Dire'' \<and>
        league (?L ! 0) = JStr []"
    using falsy_names_fall_back[of 0 "[JObj ?m]" ?m std_builtins ?L] l
    by (simp add: dict_get_def)
  moreover have "team1 (?P ! 0) = JStr ''Radiant'' \<and> team2 (?P ! 0) = JStr ''Dire'' \<and>
        league (?P ! 0) = JStr []"
    using falsy_names_fall_back[of 0 "[JObj ?n]" ?n std_builtins ?P] p
    by (simp add: dict_get_def)
  ultimately show ?thesis using l p by blast
qed

section \<open>The handlers\<close>

text \<open>
  C3. When the upstream is asked (the cache has no live entry for the key) and answers
  with a status code other than 200, both handlers raise \<^verbatim>\<open>HTTPException\<close> with status
  502 whose detail is \<^verbatim>\<open>"OpenDota upstream error "\<close> followed by the upstream status code
  in decimal, and the cache is the one the handler started with.
\<close>

theorem upstream_non_200_raises_502:
  assumes "status_code r \<noteq> 200"
  shows "(cache_get c (live_url B params) t1 = None \<and> fetch (live_url B params) = Inr r \<longrightarrow>
            dota_live B fetch t1 t2 params c =
              (Inl (HTTPException 502 (''OpenDota upstream error '' @ str_int (status_code r))), c)) \<and>
         (cache_get c OPENDOTA_PRO t1 = None \<and> fetch OPENDOTA_PRO = Inr r \<longrightarrow>
            dota_recent B fetch t1 t2 c =
              (Inl (HTTPException 502 (''OpenDota upstream error '' @ str_int (status_code r))), c))"
  using assms by (simp add: dota_live_def dota_recent_def upstream_error_def)

theorem upstream_non_200_raises_502_witness:
  "status_code \<lparr>status_code = 503, json_body = (None :: unit json option)\<rparr> \<noteq> 200 \<and>
   dota_live std_builtins (\<lambda>u. Inr \<lparr>status_code = 503, json_body = None\<rparr>) 0 0 [] Map.empty =
     (Inl (HTTPException 502 ''OpenDota upstream error 503''), Map.empty) \<and>
   dota_recent std_builtins (\<lambda>u. Inr \<lparr>status_code = 503, json_body = None\<rparr>) 0 0 Map.empty =
     (Inl (HTTPException 502 ''OpenDota upstream error 503''), Map.empty)"
proof -
  have h: "status_code \<lparr>status_code = 503, json_body = (None :: unit json option)\<rparr> \<noteq> 200"
    by simp
  from upstream_non_200_raises_502[OF h, of Map.empty std_builtins "[]" 0
      "\<lambda>u. Inr \<lparr>status_code = 503, json_body = None\<rparr>" 0] h
  show ?thesis by (simp add: cache_get_def str_int_def digits.simps)
qed

text \<open>
  C7. The cache key of the live handler is \<open>live_url B params\<close>, a function of the query
  parameters alone. So when a request has been answered from the upstream and its
  payload stored, a second request with the same parameters made before the ttl has
  elapsed finds that entry: it returns the same count and items with
  \<^verbatim>\<open>fromCache = True\<close>, whatever the upstream would answer, and leaves the cache as it is.
\<close>

theorem repeated_live_request_hits_cache:
  assumes "dota_live B fetch t1 t2 params c = (Inr r, c')"
    and "\<not> fromCache r"
    and "t3 - t2 < of_int CACHE_SECONDS"
  shows "dota_live B fetch' t3 t4 params c' = (Inr (r\<lparr>fromCache := True\<rparr>), c')"
proof -
  let ?url = "live_url B params"
  from assms(1,2) obtain n its where
    r: "r = \<lparr>count = n, items = its, fromCache = False\<rparr>"
    and c': "c' = cache_set c ?url \<lparr>count = n, items = its\<rparr> CACHE_SECONDS t2"
    by (auto simp add: dota_live_def Let_def split: option.splits sum.splits if_splits)
  from assms(3) have "cache_get c' ?url t3 = Some \<lparr>count = n, items = its\<rparr>"
    unfolding c' by (simp add: cache_get_def cache_set_def)
  then show ?thesis
    by (simp add: dota_live_def r)
qed

theorem repeated_live_request_hits_cache_witness:
  "dota_live std_builtins
     (\<lambda>u. Inr \<lparr>status_code = 200, json_body = Some (JArr [JObj [(''match_id'', JInt 1)]])\<rparr>)
     0 1 [(''league_id'', ''7'')] Map.empty =
     (Inr \<lparr>count = 1,
           items = [\<lparr>item_id = JInt 1, game = ''Dota 2'', league = JStr [], series = [],
                     team1 = JStr ''Radiant'', team2 = JStr ''Dire'', status = ''Live'',
                     score = ''0 - 0'', begin_at = JNull, raw = [(''match_id'', JInt 1)]\<rparr>],
           fromCache = False\<rparr>,
      [''https://api.opendota.com/api/live?league_id=7'' \<mapsto>
         \<lparr>data = \<lparr>count = 1,
                   items = [\<lparr>item_id = JInt 1, game = ''Dota 2'', league = JStr [], series = [],
                     team1 = JStr ''Radiant'', team2 = JStr ''Dire'', status = ''Live'',
                     score = ''0 - 0'', begin_at = JNull, raw = [(''match_id'', JInt 1)]\<rparr>]\<rparr>,
          exp_at = 11\<rparr>]) \<and>
   (5::real) - 1 < of_int CACHE_SECONDS \<and>
   dota_live std_builtins (\<lambda>u. Inl TransportError) 5 6 [(''league_id'', ''7'')]
     [''https://api.opendota.com/api/live?league_id=7'' \<mapsto>
         \<lparr>data = \<lparr>count = 1,
                   items = [\<lparr>item_id = JInt 1, game = ''Dota 2'', league = JStr [], series = [],
                     team1 = JStr ''Radiant'', team2 = JStr ''Dire'', status = ''Live'',
                     score = ''0 - 0'', begin_at = JNull, raw = [(''match_id'', JInt 1)]\<rparr>]\<rparr>,
          exp_at = 11\<rparr>] =
     (Inr \<lparr>count = 1,
           items = [\<lparr>item_id = JInt 1, game = ''Dota 2'', league = JStr [], series = [],
                     team1 = JStr ''Radiant'', team2 = JStr ''Dire'', status = ''Live'',
                     score = ''0 - 0'', begin_at = JNull, raw = [(''match_id'', JInt 1)]\<rparr>],
           fromCache = True\<rparr>,
      [''https://api.opendota.com/api/live?league_id=7'' \<mapsto>
         \<lparr>data = \<lparr>count = 1,
                   items = [\<lparr>item_id = JInt 1, game = ''Dota 2'', league = JStr [], series = [],
                     team1 = JStr ''Radiant'', team2 = JStr ''Dire'', status = ''Live'',
                     score = ''0 - 0'', begin_at = JNull, raw = [(''match_id'', JInt 1)]\<rparr>]\<rparr>,
          exp_at = 11\<rparr>])"
  (is "?first = (Inr ?r, ?c) \<and> ?win \<and> ?second = (Inr ?r', ?c)")
proof -
  have first: "?first = (Inr ?r, ?c)"
    by (simp add: run_defs enc_defs)
  have fresh: "\<not> fromCache ?r" by simp
  have win: ?win by (simp add: CACHE_SECONDS_def)
  from repeated_live_request_hits_cache[OF first fresh win, of "\<lambda>u. Inl TransportError" 6]
  have "?second = (Inr ?r', ?c)" by simp
  with first win show ?thesis by blast
qed

text \<open>
  C1, as the code has it. Both handlers set \<^verbatim>\<open>count\<close> to \<^verbatim>\<open>len(rows)\<close>, the length of the
  upstream body. For a body that is an array of \<open>n\<close> elements, a response built from the
  upstream has count \<open>n\<close>; its items are \<open>n\<close> on the live endpoint and \<open>min 20 n\<close> on the
  recent endpoint. So count is the number of items on the live endpoint, and on the
  recent endpoint exactly when the upstream sent at most 20 records. A response served
  from the cache repeats the count and the items of the stored payload.
\<close>

theorem count_is_upstream_length:
  "(cache_get c (live_url B params) t1 = None \<and> fetch (live_url B params) = Inr resp \<and>
    json_body resp = Some (JArr rows) \<and> dota_live B fetch t1 t2 params c = (Inr r, c') \<longrightarrow>
      count r = length rows \<and> length (items r) = length rows \<and> \<not> fromCache r) \<and>
   (cache_get c OPENDOTA_PRO t1 = None \<and> fetch OPENDOTA_PRO = Inr resp \<and>
    json_body resp = Some (JArr rows) \<and> dota_recent B fetch t1 t2 c = (Inr r, c') \<longrightarrow>
      count r = length rows \<and> length (items r) = min 20 (length rows) \<and> \<not> fromCache r) \<and>
   (cache_get c (live_url B params) t1 = Some p \<longrightarrow>
      dota_live B fetch t1 t2 params c =
        (Inr \<lparr>count = count p, items = items p, fromCache = True\<rparr>, c)) \<and>
   (cache_get c OPENDOTA_PRO t1 = Some p \<longrightarrow>
      dota_recent B fetch t1 t2 c =
        (Inr \<lparr>count = count p, items = items p, fromCache = True\<rparr>, c))"
proof -
  have live: "count r = length rows \<and> length (items r) = length rows \<and> \<not> fromCache r"
    if "cache_get c (live_url B params) t1 = None" "fetch (live_url B params) = Inr resp"
      "json_body resp = Some (JArr rows)" "dota_live B fetch t1 t2 params c = (Inr r, c')"
  proof -
    from that obtain its where n: "normalize_live B (JArr rows) = Inr its"
      and r: "r = \<lparr>count = length rows, items = its, fromCache = False\<rparr>"
      by (auto simp add: dota_live_def Let_def split: sum.splits if_splits)
    from normalize_live_nth(1)[OF n] r show ?thesis by simp
  qed
  have recent: "count r = length rows \<and> length (items r) = min 20 (length rows) \<and> \<not> fromCache r"
    if "cache_get c OPENDOTA_PRO t1 = None" "fetch OPENDOTA_PRO = Inr resp"
      "json_body resp = Some (JArr rows)" "dota_recent B fetch t1 t2 c = (Inr r, c')"
  proof -
    from that obtain its where n: "normalize_pro B (JArr rows) = Inr its"
      and r: "r = \<lparr>count = length rows, items = its, fromCache = False\<rparr>"
      by (auto simp add: dota_recent_def split: sum.splits if_splits)
    from normalize_pro_nth(1)[OF n] r show ?thesis by simp
  qed
  have hits: "cache_get c (live_url B params) t1 = Some p \<longrightarrow>
      dota_live B fetch t1 t2 params c =
        (Inr \<lparr>count = count p, items = items p, fromCache = True\<rparr>, c)"
    "cache_get c OPENDOTA_PRO t1 = Some p \<longrightarrow>
      dota_recent B fetch t1 t2 c =
        (Inr \<lparr>count = count p, items = items p, fromCache = True\<rparr>, c)"
    by (simp_all add: dota_live_def dota_recent_def)
  from live recent hits show ?thesis by blast
qed

theorem count_is_upstream_length_witness:
  "dota_live std_builtins
     (\<lambda>u. Inr \<lparr>status_code = 200,
                 json_body = Some (JArr [JObj [(''match_id'', JInt 1)], JObj []])\<rparr>)
     0 0 [] Map.empty =
     (Inr \<lparr>count = 2,
           items = [\<lparr>item_id = JInt 1, game = ''Dota 2'', league = JStr [], series = [],
                     team1 = JStr ''Radiant'', team2 = JStr ''Dire'', status = ''Live'',
                     score = ''0 - 0'', begin_at = JNull, raw = [(''match_id'', JInt 1)]\<rparr>,
                    \<lparr>item_id = JNull, game = ''Dota 2'', league = JStr [], series = [],
                     team1 = JStr ''Radiant'', team2 = JStr ''Dire'', status = ''Live'',
                     score = ''0 - 0'', begin_at = JNull, raw = []\<rparr>],
           fromCache = False\<rparr>,
      [OPENDOTA_LIVE \<mapsto>
         \<lparr>data = \<lparr>count = 2,
                   items = [\<lparr>item_id = JInt 1, game = ''Dota 2'', league = JStr [], series = [],
                     team1 = JStr ''Radiant'', team2 = JStr ''Dire'', status = ''Live'',
                     score = ''0 - 0'', begin_at = JNull, raw = [(''match_id'', JInt 1)]\<rparr>,
                    \<lparr>item_id = JNull, game = ''Dota 2'', league = JStr [], series = [],
                     team1 = JStr ''Radiant'', team2 = JStr ''Dire'', status = ''Live'',
                     score = ''0 - 0'', begin_at = JNull, raw = []\<rparr>]\<rparr>,
          exp_at = 10\<rparr>]) \<and>
   dota_recent std_builtins
     (\<lambda>u. Inr \<lparr>status_code = 200, json_body = Some (JArr (replicate 25 (JObj [])))\<rparr>)
     0 0 Map.empty =
     (Inr \<lparr>count = 25,
           items = replicate 20
             \<lparr>item_id = JNull, game = ''Dota 2'', league = JStr [], series = [],
              team1 = JStr ''Radiant'', team2 = JStr ''Dire'', status = ''Finished'',
              score = ''0 - 0'', begin_at = JNull, raw = []\<rparr>,
           fromCache = False\<rparr>,
      [OPENDOTA_PRO \<mapsto>
         \<lparr>data = \<lparr>count = 25,
                   items = replicate 20
                     \<lparr>item_id = JNull, game = ''Dota 2'', league = JStr [], series = [],
                      team1 = JStr ''Radiant'', team2 = JStr ''Dire'', status = ''Finished'',
                      score = ''0 - 0'', begin_at = JNull, raw = []\<rparr>\<rparr>,
          exp_at = 30\<rparr>]) \<and>
   dota_live std_builtins (\<lambda>u. Inl TransportError) 5 5 []
     [OPENDOTA_LIVE \<mapsto> \<lparr>data = \<lparr>count = 3, items = []\<rparr>, exp_at = 10\<rparr>] =
     (Inr \<lparr>count = 3, items = [], fromCache = True\<rparr>,
      [OPENDOTA_LIVE \<mapsto> \<lparr>data = \<lparr>count = 3, items = []\<rparr>, exp_at = 10\<rparr>]) \<and>
   dota_recent std_builtins (\<lambda>u. Inl TransportError) 5 5
     [OPENDOTA_PRO \<mapsto> \<lparr>data = \<lparr>count = 3, items = []\<rparr>, exp_at = 10\<rparr>] =
     (Inr \<lparr>count = 3, items = [], fromCache = True\<rparr>,
      [OPENDOTA_PRO \<mapsto> \<lparr>data = \<lparr>count = 3, items = []\<rparr>, exp_at = 10\<rparr>])"
  (is "?live = (Inr ?r, ?c) \<and> ?recent = (Inr ?r', ?c') \<and> ?hit1 \<and> ?hit2")
proof -
  have url: "live_url std_builtins [] = OPENDOTA_LIVE"
    by (simp add: live_url_def std_builtins_def urlencode_doseq_def)
  have live: "?live = (Inr ?r, ?c)"
    by (simp add: run_defs numeral_2_eq_2)
  have "count ?r = 2 \<and> length (items ?r) = 2"
    using count_is_upstream_length[of Map.empty std_builtins "[]" 0
        "\<lambda>u. Inr \<lparr>status_code = 200,
                 json_body = Some (JArr [JObj [(''match_id'', JInt 1)], JObj []])\<rparr>"
        "\<lparr>status_code = 200, json_body = Some (JArr [JObj [(''match_id'', JInt 1)], JObj []])\<rparr>"
        "[JObj [(''match_id'', JInt 1)], JObj []]" 0 ?r ?c] live
    by (simp add: cache_get_def)
  moreover have "count ?r' = 25 \<and> length (items ?r') = min 20 25"
    using count_is_upstream_length[of Map.empty std_builtins _ 0
        "\<lambda>u. Inr \<lparr>status_code = 200, json_body = Some (JArr (replicate 25 (JObj [])))\<rparr>"
        "\<lparr>status_code = 200, json_body = Some (JArr (replicate 25 (JObj [])))\<rparr>"
        "replicate 25 (JObj [])" 0 ?r' ?c'] recent_25_run
    by (simp add: cache_get_def)
  moreover have ?hit1
    using count_is_upstream_length[of
        "[OPENDOTA_LIVE \<mapsto> \<lparr>data = \<lparr>count = 3, items = []\<rparr>, exp_at = 10\<rparr>]"
        std_builtins "[]" 5 _ _ _ 5 _ _ "\<lparr>count = 3, items = []\<rparr>"] url
    by (simp add: cache_get_def)
  moreover have ?hit2
    using count_is_upstream_length[of
        "[OPENDOTA_PRO \<mapsto> \<lparr>data = \<lparr>count = 3, items = []\<rparr>, exp_at = 10\<rparr>]"
        std_builtins _ 5 _ _ _ 5 _ _ "\<lparr>count = 3, items = []\<rparr>"]
    by (simp add: cache_get_def)
  ultimately show ?thesis using live recent_25_run by blast
qed

text \<open>
  With 25 upstream records the recent handler answers with count 25 and 20 items.
\<close>

theorem recent_count_exceeds_items_counterexample:
  "fst (dota_recent std_builtins
          (\<lambda>u. Inr \<lparr>status_code = 200, json_body = Some (JArr (replicate 25 (JObj [])))\<rparr>)
          0 0 Map.empty) =
     Inr \<lparr>count = 25,
          items = replicate 20
            \<lparr>item_id = JNull, game = ''Dota 2'', league = JStr [], series = [],
             team1 = JStr ''Radiant'', team2 = JStr ''Dire'', status = ''Finished'',
             score = ''0 - 0'', begin_at = JNull, raw = []\<rparr>,
          fromCache = False\<rparr> \<and>
   (25::nat) \<noteq> length (replicate 20
            \<lparr>item_id = (JNull :: unit json), game = ''Dota 2'', league = JStr [], series = [],
             team1 = JStr ''Radiant'', team2 = JStr ''Dire'', status = ''Finished'',
             score = ''0 - 0'', begin_at = JNull, raw = []\<rparr>)"
  by (simp add: recent_25_run)

text \<open>
  A body that is an object or a string has a length: the handlers answer with that
  length as count and no items.
\<close>

lemma sized_non_array_body:
  "dota_live B (\<lambda>u. Inr \<lparr>status_code = 200, json_body = Some (JObj d)\<rparr>) t1 t2 params Map.empty =
     (Inr \<lparr>count = length (remdups (map fst d)), items = [], fromCache = False\<rparr>,
      cache_set Map.empty (live_url B params)
        \<lparr>count = length (remdups (map fst d)), items = []\<rparr> CACHE_SECONDS t2)"
  "dota_recent B (\<lambda>u. Inr \<lparr>status_code = 200, json_body = Some (JStr s)\<rparr>) t1 t2 Map.empty =
     (Inr \<lparr>count = length (filter (\<lambda>c. \<not> continuation_byte c) s), items = [],
           fromCache = False\<rparr>,
      cache_set Map.empty OPENDOTA_PRO
        \<lparr>count = length (filter (\<lambda>c. \<not> continuation_byte c) s), items = []\<rparr> 30 t2)"
  by (simp_all add: dota_live_def dota_recent_def cache_get_def normalize_live_def
      normalize_pro_def)

text \<open>
  C5 fails on the code. When the upstream answers 200 with a JSON body that has no
  length (null, a number, a boolean), \<^verbatim>\<open>len(rows)\<close> raises \<^verbatim>\<open>TypeError\<close> in both handlers
  before the normaliser, which would return the empty list, is called: the request fails
  and nothing is cached.
\<close>

theorem body_without_length_raises:
  "dota_live B (\<lambda>u. Inr \<lparr>status_code = 200, json_body = Some JNull\<rparr>) t1 t2 params Map.empty
     = (Inl TypeError, Map.empty) \<and>
   dota_recent B (\<lambda>u. Inr \<lparr>status_code = 200, json_body = Some JNull\<rparr>) t1 t2 Map.empty
     = (Inl TypeError, Map.empty) \<and>
   dota_live B (\<lambda>u. Inr \<lparr>status_code = 200, json_body = Some (JInt 7)\<rparr>) t1 t2 params Map.empty
     = (Inl TypeError, Map.empty) \<and>
   dota_live B (\<lambda>u. Inr \<lparr>status_code = 200, json_body = Some (JBool False)\<rparr>) t1 t2 params
       Map.empty
     = (Inl TypeError, Map.empty)"
  by (simp add: dota_live_def dota_recent_def cache_get_def)

end
